theory Spec2Isabelle
  imports Main "HOL-Library.Sublist" "HOL-Library.Word"
begin

section \<open>Errors, responses and diagnostics\<close>

text \<open>
  Go's \<open>error\<close> values, as far as the three resources build and inspect them. \<open>None\<close> of
  type \<open>error option\<close> is Go's \<open>nil\<close> error.
  \<^item> \<open>Err m\<close>: an error produced by a client call or a library, with its message;
  \<^item> \<open>ErrIntermittent\<close>, \<open>ErrInvalidResponse\<close>: the sentinels of package \<open>config\<close>;
  \<^item> \<open>Errorf f args e\<close>: \<open>fmt.Errorf(f, args..., e)\<close>, the format, its scalar arguments and the
    error argument (\<open>%w\<close> or \<open>%v\<close>) when there is one;
  \<^item> \<open>PermanentError e\<close>: \<open>backoff.Permanent(e)\<close>, the wrapper that tells \<open>backoff.Retry\<close> to
    stop.
\<close>

datatype fmtarg = S string | D int

datatype error =
    Err string
  | ErrIntermittent
  | ErrInvalidResponse
  | Errorf string "fmtarg list" "error option"
  | PermanentError "error option"

text \<open>
  The fields the code reads of a client's \<open>*Response\<close>: \<open>resp.StatusCode\<close>,
  \<open>resp.Error.Message\<close> (console client) and \<open>resp.Header.Get("Location")\<close> (CDR client).
  A \<open>Response option\<close> is the pointer: \<open>None\<close> is \<open>nil\<close>.
\<close>

record Response =
  StatusCode :: int
  ErrorMessage :: string
  Location :: string

definition StatusAccepted :: int where "StatusAccepted = 202"
definition StatusBadRequest :: int where "StatusBadRequest = 400"
definition StatusNotFound :: int where "StatusNotFound = 404"
definition StatusInternalServerError :: int where "StatusInternalServerError = 500"

text \<open>\<open>diag.Diagnostics\<close>: a list of error diagnostics, each carrying the error it reports.\<close>

datatype Diagnostic = ErrorDiag error

type_synonym Diagnostics = "Diagnostic list"

definition FromErr :: "error \<Rightarrow> Diagnostics" where
  "FromErr e = [ErrorDiag e]"

text \<open>A Go call either returns or panics (a nil pointer dereference).\<close>

datatype 'a outcome = Done 'a | Panicked

section \<open>The outcome classifier of the metrics autoscaler\<close>

text \<open>\<open>strings.Contains\<close>: the substring occurs at some position of the string.\<close>

fun Contains :: "string \<Rightarrow> string \<Rightarrow> bool" where
  "Contains [] substr = (substr = [])"
| "Contains (c # cs) substr = (prefix substr (c # cs) \<or> Contains cs substr)"

definition Permanent :: "error option \<Rightarrow> error option" where
  "Permanent err = Some (PermanentError err)"

text \<open>
  \<open>checkForIntermittentErrors(resp, err)\<close>: the value the retried operation returns.
  \<open>None\<close> ends the retry loop as a success, a \<open>PermanentError\<close> ends it as a failure, every
  other error is retry-eligible.
\<close>

definition checkForIntermittentErrors :: "Response option \<Rightarrow> error option \<Rightarrow> error option" where
  "checkForIntermittentErrors resp err =
     (case resp of
        None \<Rightarrow> err
      | Some r \<Rightarrow>
          if StatusCode r > 500 then err
          else if StatusCode r = StatusInternalServerError
            then Permanent (Some (Errorf ''console: %s %w'' [S (ErrorMessage r)] err))
          else if StatusCode r = StatusBadRequest \<and> Contains (ErrorMessage r) ''invalid character''
            then Some ErrIntermittent
          else Permanent err)"

text \<open>How \<open>backoff.Retry\<close> reads the value: permanent errors stop it, other errors are transient.\<close>

fun isPermanent :: "error option \<Rightarrow> bool" where
  "isPermanent (Some (PermanentError e)) = True"
| "isPermanent r = False"

definition isTransient :: "error option \<Rightarrow> bool" where
  "isTransient r = (r \<noteq> None \<and> \<not> isPermanent r)"

section \<open>Resource data and remote calls\<close>

type_synonym bytes = string

text \<open>A \<open>float64\<close> is copied, never computed with: its 64 bits.\<close>

type_synonym float64 = "64 word"

text \<open>\<open>time.Duration\<close>: nanoseconds.\<close>

type_synonym Duration = int

definition Second :: Duration where "Second = 1000000000"

text \<open>
  The FHIR organization of the CDR client, with the fields the code reads and writes:
  \<open>org.Id.Value\<close>, \<open>org.Name.Value\<close> and \<open>org.PartOf\<close>, a pointer to a reference whose
  \<open>GetOrganizationId()\<close> is the referenced organization, when the reference is one.
  \<open>Id\<close> and \<open>Name\<close> are taken to be set in every organization a client returns.
\<close>

datatype Reference = Reference (GetOrganizationId: "string option")

record Organization =
  Id_org :: string
  Name_org :: string
  PartOf :: "Reference option"

text \<open>The organization of the IAM client.\<close>

record IAMOrganization =
  ID_iam :: string
  Name_iam :: string
  Description_iam :: string
  Parent_Value :: string
  ExternalID_iam :: string
  DisplayName_iam :: string
  Type_iam :: string
  Active_iam :: bool

text \<open>The autoscaler application of the console client.\<close>

record Threshold =
  Name_th :: string
  Min_th :: float64
  Max_th :: float64
  Enabled_th :: bool

record Application =
  Name_app :: string
  MaxInstances :: int
  MinInstances :: int
  Enabled_app :: bool
  Thresholds :: "Threshold list"

text \<open>One element \<open>mVi\<close> of a threshold set: \<open>mVi["min"]\<close>, \<open>mVi["max"]\<close>, \<open>mVi["enabled"]\<close>.\<close>

record ThresholdFields =
  min_field :: float64
  max_field :: float64
  enabled_field :: bool

text \<open>
  \<open>*schema.ResourceData\<close>, by what the code asks of it. The attributes are typed as the
  code's type assertions expect them (\<open>d.Get(k).(string)\<close> is \<open>attr_str d k\<close>, and so on);
  \<open>attr_set d k\<close> is the list of the set \<open>k\<close>, empty when \<open>d.GetOk(k)\<close> finds none;
  \<open>changed d k\<close> is \<open>d.HasChange(k)\<close>, the SDK's comparison of the last-known value of \<open>k\<close>
  with the desired one; \<open>sets\<close> records the \<open>d.Set(k, v)\<close> calls in order (no function
  reads an attribute back after setting it).
\<close>

datatype val = VStr string | VBool bool | VRef "string option"

record ResourceData =
  ident :: string
  attr_str :: "string \<Rightarrow> string"
  attr_bool :: "string \<Rightarrow> bool"
  attr_int :: "string \<Rightarrow> int"
  attr_set :: "string \<Rightarrow> ThresholdFields list"
  changed :: "string \<Rightarrow> bool"
  sets :: "(string \<times> val) list"
  TimeoutCreate :: Duration

definition SetId :: "ResourceData \<Rightarrow> string \<Rightarrow> ResourceData" where
  "SetId dd v = dd\<lparr>ident := v\<rparr>"

definition HasChange :: "ResourceData \<Rightarrow> string \<Rightarrow> bool" where
  "HasChange dd k = changed dd k"


text \<open>One parameter of a FHIR Parameters resource: \<open>p.Name.Value\<close>, and
  \<open>p.Value.GetStringValue()\<close>, \<open>None\<close> when the value is not a string.\<close>

record Parameter =
  Name_param :: string
  StringValue :: "string option"

text \<open>
  The remote calls, with the arguments the code sends. \<open>Tools_Call\<close> stands for a call
  made inside \<open>tools.CheckForIAMPermissionErrors\<close>.
\<close>

datatype call =
    CDR_GetOrganizationByID string
  | CDR_Onboard "Organization option"
  | CDR_Patch string bytes
  | CDR_Delete string
  | CDR_Post string string
  | CDR_Get string string
  | IAM_GetOrganizationByID string
  | IAM_UpdateOrganization IAMOrganization
  | IAM_DeleteOrganization IAMOrganization
  | Console_UpdateApplicationAutoscaler string Application
  | Tools_Call string

text \<open>The creation (onboarding) calls among the calls issued.\<close>

definition creationCalls :: "call list \<Rightarrow> call list" where
  "creationCalls cs = filter (\<lambda>x. case x of CDR_Onboard org \<Rightarrow> True | _ \<Rightarrow> False) cs"

text \<open>
  What an operation works on: the resource data it mutates and the remote calls issued so
  far, oldest first.
\<close>

record state =
  data :: ResourceData
  calls :: "call list"

text \<open>
  The clients are collaborators outside the source: each method is a parameter, a function
  of the calls issued so far (the remote side may answer the same request differently
  later) and of the request, that returns the Go result tuple.
\<close>

record cdr_Client =
  TenantSTU3_GetOrganizationByID ::
    "call list \<Rightarrow> string \<Rightarrow> Organization option \<times> Response option \<times> error option"
  TenantSTU3_Onboard ::
    "call list \<Rightarrow> Organization option \<Rightarrow> Organization option \<times> Response option \<times> error option"
  OperationsSTU3_Patch :: "call list \<Rightarrow> string \<Rightarrow> bytes \<Rightarrow> Response option \<times> error option"
  OperationsSTU3_Delete :: "call list \<Rightarrow> string \<Rightarrow> bool \<times> Response option \<times> error option"
  OperationsSTU3_Post :: "call list \<Rightarrow> string \<Rightarrow> string \<Rightarrow> Response option \<times> error option"
  OperationsSTU3_Get ::
    "call list \<Rightarrow> string \<Rightarrow> string \<Rightarrow> Parameter list option \<times> Response option \<times> error option"

record iam_Client =
  Organizations_GetOrganizationByID ::
    "call list \<Rightarrow> string \<Rightarrow> IAMOrganization option \<times> Response option \<times> error option"
  Organizations_UpdateOrganization ::
    "call list \<Rightarrow> IAMOrganization \<Rightarrow> IAMOrganization option \<times> Response option \<times> error option"
  Organizations_DeleteOrganization ::
    "call list \<Rightarrow> IAMOrganization \<Rightarrow> bool \<times> Response option \<times> error option"

record console_Client =
  Metrics_UpdateApplicationAutoscaler ::
    "call list \<Rightarrow> string \<Rightarrow> Application \<Rightarrow> Application option \<times> Response option \<times> error option"

text \<open>
  \<open>backoff.Retry(operation, backoff.WithMaxRetries(backoff.NewExponentialBackOff(), n))\<close>
  belongs to a library outside the source. The models take it as a parameter: from the
  operation (a closure over the variables it assigns and the calls issued so far), the
  argument \<open>n\<close> and the closure's variables before the first attempt, to the error it
  returns and the variables after the last attempt.
\<close>

type_synonym 's retry =
  "('s \<Rightarrow> (error option \<times> 's) outcome) \<Rightarrow> nat \<Rightarrow> 's \<Rightarrow> (error option \<times> 's) outcome"

definition is404 :: "Response option \<Rightarrow> bool" where
  "is404 resp = (case resp of None \<Rightarrow> False | Some r \<Rightarrow> StatusCode r = StatusNotFound)"

section \<open>The metrics autoscaler\<close>

record console_Config =
  ConsoleClient :: "error + console_Client"
  Retry_console :: "(Application option \<times> call list) retry"

text \<open>
  \<open>updateWithRetry\<close>: the closure assigns \<open>created\<close> at every attempt; \<open>created\<close> is \<open>nil\<close>
  before the first one.
\<close>

definition updateWithRetry ::
  "(Application option \<times> call list) retry \<Rightarrow> console_Client \<Rightarrow> string \<Rightarrow> Application
    \<Rightarrow> call list \<Rightarrow> ((Application option \<times> error option) \<times> call list) outcome" where
  "updateWithRetry retry client instanceID app cs =
     (let operation = (\<lambda>(created, cs).
            let (created', resp, err) = Metrics_UpdateApplicationAutoscaler client cs instanceID app
            in Done (checkForIntermittentErrors resp err,
                     (created', cs @ [Console_UpdateApplicationAutoscaler instanceID app])))
      in case retry operation 30 (None, cs) of
           Panicked \<Rightarrow> Panicked
         | Done (err, (created, cs')) \<Rightarrow> Done ((created, err), cs'))"

text \<open>\<open>thresholdMapping\<close>: threshold name and the field that holds it.\<close>

definition thresholdMapping :: "(string \<times> string) list" where
  "thresholdMapping =
     [(''cpu'', ''threshold_cpu''),
      (''memory'', ''threshold_memory''),
      (''http-rate'', ''threshold_http_rate''),
      (''http-latency'', ''threshold_http_latency'')]"

text \<open>
  The loop over \<open>thresholdMapping\<close>. Go visits the entries of a map in an order it chooses
  at each run: \<open>order\<close> is that order, the entries as the loop meets them.
\<close>

fun collectThresholds :: "ResourceData \<Rightarrow> (string \<times> string) list \<Rightarrow> Threshold list \<Rightarrow> Threshold list" where
  "collectThresholds dd [] acc = acc"
| "collectThresholds dd ((key, fieldName) # order) acc =
     collectThresholds dd order
       (acc @ map (\<lambda>mVi. \<lparr>Name_th = key, Min_th = min_field mVi, Max_th = max_field mVi,
                           Enabled_th = enabled_field mVi\<rparr>) (attr_set dd fieldName))"

definition resourceMetricsAutoscalerCreate ::
  "console_Config \<Rightarrow> (string \<times> string) list \<Rightarrow> state \<Rightarrow> (Diagnostics \<times> state) outcome" where
  "resourceMetricsAutoscalerCreate c order s =
     (case ConsoleClient c of
        Inl err \<Rightarrow> Done (FromErr err, s)
      | Inr client \<Rightarrow>
          (let dd = data s;
               instanceID = attr_str dd ''metrics_instance_id'';
               app = \<lparr>Name_app = attr_str dd ''app_name'',
                      MaxInstances = attr_int dd ''max_instances'',
                      MinInstances = attr_int dd ''min_instances'',
                      Enabled_app = attr_bool dd ''enabled'',
                      Thresholds = collectThresholds dd order []\<rparr>
           in (case updateWithRetry (Retry_console c) client instanceID app (calls s) of
                 Panicked \<Rightarrow> Panicked
               | Done ((created, Some err), cs) \<Rightarrow> Done (FromErr err, s\<lparr>calls := cs\<rparr>)
               | Done ((None, None), cs) \<Rightarrow>
                   Done (FromErr (Errorf ''error creating/updating autoscaler'' [] None), s\<lparr>calls := cs\<rparr>)
               | Done ((Some cr, None), cs) \<Rightarrow>
                   Done ([], \<lparr>data = SetId dd (instanceID @ Name_app cr), calls = cs\<rparr>))))"

definition resourceMetricsAutoscalerUpdate ::
  "console_Config \<Rightarrow> (string \<times> string) list \<Rightarrow> state \<Rightarrow> (Diagnostics \<times> state) outcome" where
  "resourceMetricsAutoscalerUpdate c order s = resourceMetricsAutoscalerCreate c order s"

section \<open>The CDR organization (STU3)\<close>

text \<open>
  What \<open>stu3.go\<close> takes from outside the source: the configuration's time zone and FHIR
  marshaller, the helpers of the client library and of Go's library, the retry executor,
  \<open>tools.CheckForIAMPermissionErrors\<close> (it returns the error to hand to the retry
  executor, and the calls it made itself), \<open>resourceCDROrgUpdate\<close> of the resource's own
  file, and the number of status checks that fit into the poller's timeout.
\<close>

record cdr_Config =
  TimeZone :: string
  NewOrganization :: "string \<Rightarrow> string \<Rightarrow> string \<Rightarrow> Organization option \<times> error option"
  MarshalResource :: "Organization option \<Rightarrow> bytes \<times> error option"
  DiffBytes :: "bytes \<Rightarrow> bytes \<Rightarrow> bytes \<times> error option"
  path_Join :: "string \<Rightarrow> string \<Rightarrow> string"
  url_Parse :: "string \<Rightarrow> string \<times> error option"
  CheckForIAMPermissionErrors :: "call list \<Rightarrow> Response \<Rightarrow> error option \<Rightarrow> error option \<times> call list"
  Retry_cdr :: "(Organization option \<times> call list) retry"
  resourceCDROrgUpdate :: "state \<Rightarrow> (Diagnostics \<times> state) outcome"
  checks_in_timeout :: nat
  client_cdr :: cdr_Client

definition organizationReference :: "string \<Rightarrow> Reference" where
  "organizationReference partOf = Reference (Some partOf)"

definition stu3Create :: "cdr_Config \<Rightarrow> state \<Rightarrow> (Diagnostics \<times> state) outcome" where
  "stu3Create c s =
     (let dd = data s;
          orgID = attr_str dd ''org_id'';
          name = attr_str dd ''name'';
          partOf = attr_str dd ''part_of''
      in case NewOrganization c (TimeZone c) orgID name of
           (org, Some err) \<Rightarrow> Done (FromErr err, s)
         | (org, None) \<Rightarrow>
             (case (if partOf \<noteq> [] then
                      (case org of
                         None \<Rightarrow> Panicked
                       | Some og \<Rightarrow> Done (Some (og\<lparr>PartOf := Some (organizationReference partOf)\<rparr>)))
                    else Done org) of
                Panicked \<Rightarrow> Panicked
              | Done org \<Rightarrow>
                  (let (onboardedOrg, resp0, err) = TenantSTU3_GetOrganizationByID (client_cdr c) (calls s) orgID;
                       cs1 = calls s @ [CDR_GetOrganizationByID orgID]
                   in (case (err, onboardedOrg) of
                         (None, Some onb) \<Rightarrow>
                           resourceCDROrgUpdate c \<lparr>data = SetId dd (Id_org onb), calls = cs1\<rparr>
                       | _ \<Rightarrow>
                           (let operation = (\<lambda>(onboardedOrg, cs).
                                  (let (onboardedOrg', resp, err) = TenantSTU3_Onboard (client_cdr c) cs org;
                                       cs' = cs @ [CDR_Onboard org]
                                   in (case resp of
                                         None \<Rightarrow> Panicked
                                       | Some r \<Rightarrow>
                                           (let (e, made) = CheckForIAMPermissionErrors c cs' r err
                                            in Done (e, (onboardedOrg', cs' @ made))))))
                            in (case Retry_cdr c operation 8 (onboardedOrg, cs1) of
                                  Panicked \<Rightarrow> Panicked
                                | Done (Some err, (onboardedOrg, cs)) \<Rightarrow> Done (FromErr err, s\<lparr>calls := cs\<rparr>)
                                | Done (None, (None, cs)) \<Rightarrow> Panicked
                                | Done (None, (Some onb, cs)) \<Rightarrow>
                                    Done ([], \<lparr>data = SetId dd (Id_org onb), calls = cs\<rparr>)))))))"


text \<open>The two field-level changes of \<open>stu3Update\<close>; assigning through a nil \<open>org\<close> panics.\<close>

definition changeName :: "ResourceData \<Rightarrow> Organization option \<times> bool \<Rightarrow> (Organization option \<times> bool) outcome" where
  "changeName dd om =
     (if HasChange dd ''name'' then
        (case fst om of
           None \<Rightarrow> Panicked
         | Some og \<Rightarrow> Done (Some (og\<lparr>Name_org := attr_str dd ''name''\<rparr>), True))
      else Done om)"

definition changePartOf :: "ResourceData \<Rightarrow> Organization option \<times> bool \<Rightarrow> (Organization option \<times> bool) outcome" where
  "changePartOf dd om =
     (if HasChange dd ''part_of'' then
        (case fst om of
           None \<Rightarrow> Panicked
         | Some og \<Rightarrow>
             let partOf = attr_str dd ''part_of''
             in if partOf \<noteq> [] then Done (Some (og\<lparr>PartOf := Some (organizationReference partOf)\<rparr>), True)
                else Done (Some (og\<lparr>PartOf := None\<rparr>), True))
      else Done om)"

definition stu3Update :: "cdr_Config \<Rightarrow> state \<Rightarrow> (Diagnostics \<times> state) outcome" where
  "stu3Update c s =
     (let dd = data s;
          rid = ident dd;
          (org, resp0, err) = TenantSTU3_GetOrganizationByID (client_cdr c) (calls s) rid;
          s1 = s\<lparr>calls := calls s @ [CDR_GetOrganizationByID rid]\<rparr>
      in case err of
           Some e \<Rightarrow> Done (FromErr e, s1)
         | None \<Rightarrow>
             (case MarshalResource c org of
                (jsonOrg, Some e) \<Rightarrow> Done (FromErr e, s1)
              | (jsonOrg, None) \<Rightarrow>
                  (case changeName dd (org, False) of
                     Panicked \<Rightarrow> Panicked
                   | Done om1 \<Rightarrow>
                       (case changePartOf dd om1 of
                          Panicked \<Rightarrow> Panicked
                        | Done (org2, madeChanges) \<Rightarrow>
                            if \<not> madeChanges then Done ([], s1)
                            else
                              (let changedOrg = fst (MarshalResource c org2)
                               in (case DiffBytes c jsonOrg changedOrg of
                                     (patch, Some e) \<Rightarrow> Done (FromErr e, s1)
                                   | (patch, None) \<Rightarrow>
                                       (let (resp, err) = OperationsSTU3_Patch (client_cdr c) (calls s1)
                                                            (''Organization/'' @ rid) patch;
                                            s2 = s1\<lparr>calls := calls s1 @ [CDR_Patch (''Organization/'' @ rid) patch]\<rparr>
                                        in (case err of
                                              Some e \<Rightarrow> Done (FromErr e, s2)
                                            | None \<Rightarrow> Done ([], s2)))))))))"

subsection \<open>Purge: the status check and the poller\<close>

text \<open>What one status check returns: the result, the state label and the error.\<close>

type_synonym refresh = "call list \<Rightarrow> ((Response option \<times> string \<times> error option) \<times> call list) outcome"

text \<open>The loop over \<open>params.Parameter\<close> that looks for the parameter named \<open>status\<close>.\<close>

fun statusParameter :: "string \<Rightarrow> Parameter list \<Rightarrow> (string \<times> error option) outcome" where
  "statusParameter purgeStatusURL [] =
     Done (''FAILED'', Some (Errorf ''missing status parameter for GET %s'' [S purgeStatusURL] None))"
| "statusParameter purgeStatusURL (p # ps) =
     (if Name_param p = ''status'' then
        (case StringValue p of
           None \<Rightarrow> Panicked
         | Some v \<Rightarrow> Done (v, None))
      else statusParameter purgeStatusURL ps)"

text \<open>
  \<open>stu3PurgeStateRefreshFunc\<close>. When \<open>url.Parse\<close> fails the returned closure names its
  results, so the \<open>err\<close> it returns is its own, still \<open>nil\<close>, and it issues no call.
  Otherwise each check is one GET of the status URL; \<open>contained\<close> is \<open>None\<close> when the answer
  holds no Parameters resource, and reading \<open>params.Parameter\<close> then panics, as reading
  \<open>resp.StatusCode\<close> of a nil response does.
\<close>

definition stu3PurgeStateRefreshFunc :: "cdr_Config \<Rightarrow> string \<Rightarrow> string \<Rightarrow> refresh" where
  "stu3PurgeStateRefreshFunc c purgeStatusURL rid =
     (case url_Parse c purgeStatusURL of
        (statusURL, Some err) \<Rightarrow> (\<lambda>cs. Done ((None, ''FAILED'', None), cs))
      | (statusURL, None) \<Rightarrow>
          (\<lambda>cs.
             (let (contained, resp, err) = OperationsSTU3_Get (client_cdr c) cs rid statusURL;
                  cs' = cs @ [CDR_Get rid statusURL]
              in (case err of
                    Some e \<Rightarrow> Done ((resp, ''FAILED'', Some e), cs')
                  | None \<Rightarrow>
                      (case resp of
                         None \<Rightarrow> Panicked
                       | Some r \<Rightarrow>
                           if StatusCode r = StatusAccepted then Done ((resp, ''PURGING'', None), cs')
                           else
                             (case contained of
                                None \<Rightarrow> Panicked
                              | Some params \<Rightarrow>
                                  (case statusParameter purgeStatusURL params of
                                     Panicked \<Rightarrow> Panicked
                                   | Done (label, e) \<Rightarrow> Done ((resp, label, e), cs'))))))))"

record StateChangeConf =
  Pending :: "string list"
  Target :: "string list"
  Refresh :: refresh
  Timeout :: Duration
  Delay :: Duration
  MinTimeout :: Duration

text \<open>
  Modelled from the spec: the Long-Running-Operation Poller (section 4.3 of the
  specification). The code calls \<open>WaitForStateContext\<close> of the Terraform plugin SDK, which is
  not under the source. By the specification each check yields a label; a label among the
  targets ends the poll as a success, a pending label keeps it polling, a label in neither
  set ends it as a failure, and so does exceeding the timeout. A check that returns an
  error ends the poll with that error. The wall clock is left out: \<open>fuel\<close> is the number of
  checks that fit into the timeout.
\<close>

datatype poll_error = CheckFailed error | UnexpectedState string | TimedOut

fun WaitForStateContext ::
  "StateChangeConf \<Rightarrow> nat \<Rightarrow> call list \<Rightarrow> (poll_error option \<times> call list) outcome" where
  "WaitForStateContext conf 0 cs = Done (Some TimedOut, cs)"
| "WaitForStateContext conf (Suc fuel) cs =
     (case Refresh conf cs of
        Panicked \<Rightarrow> Panicked
      | Done ((result, label, Some e), cs') \<Rightarrow> Done (Some (CheckFailed e), cs')
      | Done ((result, label, None), cs') \<Rightarrow>
          if label \<in> set (Target conf) then Done (None, cs')
          else if label \<in> set (Pending conf) then WaitForStateContext conf fuel cs'
          else Done (Some (UnexpectedState label), cs'))"

text \<open>
  The error the modelled poller hands to \<open>stu3Delete\<close> for each way of failing, which
  \<open>stu3Delete\<close> formats with \<open>%v\<close>. The two texts stand for the SDK's own.
\<close>

fun poll_error_value :: "poll_error \<Rightarrow> error" where
  "poll_error_value (CheckFailed e) = e"
| "poll_error_value (UnexpectedState label) = Errorf ''unexpected state %s'' [S label] None"
| "poll_error_value TimedOut = Err ''timeout''"

subsection \<open>Delete\<close>

text \<open>The \<open>resource.StateChangeConf\<close> that \<open>stu3Delete\<close> builds once the purge is accepted.\<close>

definition purgeStateConf :: "cdr_Config \<Rightarrow> ResourceData \<Rightarrow> Response \<Rightarrow> string \<Rightarrow> StateChangeConf" where
  "purgeStateConf c dd r rid =
     \<lparr>Pending = [''PURGING''],
      Target = [''SUCCESS''],
      Refresh = stu3PurgeStateRefreshFunc c (Location r) rid,
      Timeout = TimeoutCreate dd,
      Delay = 10 * Second,
      MinTimeout = 3 * Second\<rparr>"

definition stu3Delete :: "cdr_Config \<Rightarrow> state \<Rightarrow> (Diagnostics \<times> state) outcome" where
  "stu3Delete c s =
     (let dd = data s;
          rid = ident dd;
          purgeDelete = attr_bool dd ''purge_delete''
      in if \<not> purgeDelete then
           (let p = path_Join c ''Organization'' rid;
                (deleted, resp, err) = OperationsSTU3_Delete (client_cdr c) (calls s) p;
                s1 = s\<lparr>calls := calls s @ [CDR_Delete p]\<rparr>
            in if is404 resp then Done ([], s1\<lparr>data := SetId dd []\<rparr>)
               else
                 (case err of
                    Some e \<Rightarrow> Done (FromErr e, s1)
                  | None \<Rightarrow>
                      if \<not> deleted then
                        (case resp of
                           Some r \<Rightarrow>
                             Done (FromErr (Errorf ''delete failed with status code %d'' [D (StatusCode r)] None), s1)
                         | None \<Rightarrow> Done (FromErr (Errorf ''delete failed with nil response'' [] None), s1))
                      else Done ([], s1\<lparr>data := SetId dd []\<rparr>)))
         else
           (let opaque = ''/store/fhir/'' @ rid @ ''/$purge'';
                (resp, err) = OperationsSTU3_Post (client_cdr c) (calls s) ''$purge'' opaque;
                s1 = s\<lparr>calls := calls s @ [CDR_Post ''$purge'' opaque]\<rparr>
            in if is404 resp then Done ([], s1\<lparr>data := SetId dd []\<rparr>)
               else
                 (case err of
                    Some e \<Rightarrow> Done (FromErr e, s1)
                  | None \<Rightarrow>
                      (case resp of
                         None \<Rightarrow>
                           Done (FromErr (Errorf ''unexpected nil response for $purge operation'' [] None), s1)
                       | Some r \<Rightarrow>
                           if StatusCode r \<noteq> StatusAccepted then
                             Done (FromErr (Errorf ''$purge operation returned unexpected statusCode %d''
                                              [D (StatusCode r)] None), s1)
                           else
                             (case WaitForStateContext (purgeStateConf c dd r rid) (checks_in_timeout c) (calls s1) of
                                Panicked \<Rightarrow> Panicked
                              | Done (Some pe, cs) \<Rightarrow>
                                  Done (FromErr (Errorf ''error waiting for FHIR ORG purge '%s' operation: %v''
                                                   [S rid] (Some (poll_error_value pe))), s1\<lparr>calls := cs\<rparr>)
                              | Done (None, cs) \<Rightarrow> Done ([], \<lparr>data = SetId dd [], calls = cs\<rparr>))))))"

section \<open>The IAM organization\<close>

record iam_Config =
  IAMClient :: "error + iam_Client"


definition resourceIAMOrgUpdate :: "iam_Config \<Rightarrow> state \<Rightarrow> (Diagnostics \<times> state) outcome" where
  "resourceIAMOrgUpdate c s =
     (case IAMClient c of
        Inl err \<Rightarrow> Done (FromErr err, s)
      | Inr client \<Rightarrow>
          (let dd = data s;
               rid = ident dd;
               (org, resp0, err) = Organizations_GetOrganizationByID client (calls s) rid;
               s1 = s\<lparr>calls := calls s @ [IAM_GetOrganizationByID rid]\<rparr>
           in (case err of
                 Some e \<Rightarrow> Done (FromErr e, s1)
               | None \<Rightarrow>
                   if HasChange dd ''description'' \<or> HasChange dd ''name'' \<or> HasChange dd ''type''
                      \<or> HasChange dd ''external_id'' \<or> HasChange dd ''display_name'' then
                     (case org of
                        None \<Rightarrow> Panicked
                      | Some og \<Rightarrow>
                          (let og' = og\<lparr>Name_iam := attr_str dd ''name'',
                                        Description_iam := attr_str dd ''description'',
                                        Type_iam := attr_str dd ''type'',
                                        ExternalID_iam := attr_str dd ''external_id'',
                                        DisplayName_iam := attr_str dd ''display_name''\<rparr>;
                               (org', resp, err) = Organizations_UpdateOrganization client (calls s1) og';
                               s2 = s1\<lparr>calls := calls s1 @ [IAM_UpdateOrganization og']\<rparr>
                           in (case err of
                                 Some e \<Rightarrow> Done ([] @ FromErr e, s2)
                               | None \<Rightarrow> Done ([], s2))))
                   else Done ([], s1))))"

definition resourceIAMOrgDelete :: "iam_Config \<Rightarrow> state \<Rightarrow> (Diagnostics \<times> state) outcome" where
  "resourceIAMOrgDelete c s =
     (case IAMClient c of
        Inl err \<Rightarrow> Done (FromErr err, s)
      | Inr client \<Rightarrow>
          (let dd = data s;
               rid = ident dd;
               (org, resp0, err) = Organizations_GetOrganizationByID client (calls s) rid;
               s1 = s\<lparr>calls := calls s @ [IAM_GetOrganizationByID rid]\<rparr>
           in (case err of
                 Some e \<Rightarrow> Done (FromErr e, s1)
               | None \<Rightarrow>
                   (case org of
                      None \<Rightarrow> Panicked
                    | Some og \<Rightarrow>
                        (let (ok, resp, err) = Organizations_DeleteOrganization client (calls s1) og;
                             s2 = s1\<lparr>calls := calls s1 @ [IAM_DeleteOrganization og]\<rparr>
                         in (case err of
                               Some e \<Rightarrow> Done (FromErr e, s2)
                             | None \<Rightarrow>
                                 if \<not> ok then Done (FromErr ErrInvalidResponse, s2)
                                 else Done ([], s2)))))))"

section \<open>Concrete inputs\<close>

text \<open>
  A remote side and a resource to run the operations on: one organization \<open>org-1\<close>, a
  client whose every call succeeds (its status check answers 202 while fewer than two
  calls have been issued, and the status \<open>SUCCESS\<close> afterwards), helpers that succeed, and
  a retry executor that makes one attempt. The examples below change one answer at a time.
\<close>

definition response :: "int \<Rightarrow> Response" where
  "response code = \<lparr>StatusCode = code, ErrorMessage = [], Location = ''https://cdr.example/status''\<rparr>"

definition org1 :: Organization where
  "org1 = \<lparr>Id_org = ''org-1'', Name_org = ''Hospital'', PartOf = None\<rparr>"

definition iamorg1 :: IAMOrganization where
  "iamorg1 = \<lparr>ID_iam = ''org-1'', Name_iam = ''Hospital'', Description_iam = ''A hospital'',
              Parent_Value = ''root'', ExternalID_iam = [], DisplayName_iam = ''Hospital'',
              Type_iam = ''Care'', Active_iam = True\<rparr>"

definition data1 :: ResourceData where
  "data1 = \<lparr>ident = ''org-1'',
            attr_str = (\<lambda>k. if k = ''org_id'' then ''org-1'' else if k = ''name'' then ''Hospital'' else []),
            attr_bool = (\<lambda>k. False),
            attr_int = (\<lambda>k. 0),
            attr_set = (\<lambda>k. []),
            changed = (\<lambda>k. False),
            sets = [],
            TimeoutCreate = 600 * Second\<rparr>"

definition state1 :: state where
  "state1 = \<lparr>data = data1, calls = []\<rparr>"

text \<open>The state a Create starts from: the same data with no identifier yet.\<close>

definition state_new :: state where
  "state_new = \<lparr>data = data1\<lparr>ident := []\<rparr>, calls = []\<rparr>"



definition cdr_client1 :: cdr_Client where
  "cdr_client1 =
     \<lparr>TenantSTU3_GetOrganizationByID = (\<lambda>cs k. (Some org1, Some (response 200), None)),
      TenantSTU3_Onboard = (\<lambda>cs org. (org, Some (response 201), None)),
      OperationsSTU3_Patch = (\<lambda>cs p patch. (Some (response 200), None)),
      OperationsSTU3_Delete = (\<lambda>cs p. (True, Some (response 204), None)),
      OperationsSTU3_Post = (\<lambda>cs p opaque. (Some (response 202), None)),
      OperationsSTU3_Get = (\<lambda>cs k u.
         if length cs < 2 then (None, Some (response 202), None)
         else (Some [\<lparr>Name_param = ''status'', StringValue = Some ''SUCCESS''\<rparr>], Some (response 200), None))\<rparr>"

definition cdr_config1 :: cdr_Config where
  "cdr_config1 =
     \<lparr>TimeZone = ''UTC'',
      NewOrganization = (\<lambda>tz k name. (Some \<lparr>Id_org = k, Name_org = name, PartOf = None\<rparr>, None)),
      MarshalResource = (\<lambda>org. case org of None \<Rightarrow> ([], Some (Err ''nil resource''))
                                   | Some og \<Rightarrow> (Name_org og, None)),
      DiffBytes = (\<lambda>before after. (after, None)),
      path_Join = (\<lambda>a b. a @ ''/'' @ b),
      url_Parse = (\<lambda>u. (u, None)),
      CheckForIAMPermissionErrors = (\<lambda>cs r err. (err, [])),
      Retry_cdr = (\<lambda>operation n vars. operation vars),
      resourceCDROrgUpdate = (\<lambda>s. Done ([], s)),
      checks_in_timeout = 5,
      client_cdr = cdr_client1\<rparr>"

definition iam_client1 :: iam_Client where
  "iam_client1 =
     \<lparr>Organizations_GetOrganizationByID = (\<lambda>cs k. (Some iamorg1, Some (response 200), None)),
      Organizations_UpdateOrganization = (\<lambda>cs org. (Some org, Some (response 200), None)),
      Organizations_DeleteOrganization = (\<lambda>cs org. (True, Some (response 204), None))\<rparr>"

definition iam_config1 :: iam_Config where
  "iam_config1 = \<lparr>IAMClient = Inr iam_client1\<rparr>"

text \<open>The remote sides of the examples: each differs from the one above in one answer.\<close>

definition not_found :: error where
  "not_found = Err ''not found''"




definition iam_client_404 :: iam_Client where
  "iam_client_404 =
     iam_client1\<lparr>Organizations_GetOrganizationByID := (\<lambda>cs k. (None, Some (response 404), Some not_found))\<rparr>"

definition iam_config_404 :: iam_Config where
  "iam_config_404 = \<lparr>IAMClient = Inr iam_client_404\<rparr>"

definition iam_config_delete_404 :: iam_Config where
  "iam_config_delete_404 =
     \<lparr>IAMClient = Inr (iam_client1\<lparr>Organizations_DeleteOrganization :=
                           (\<lambda>cs org. (False, Some (response 404), Some not_found))\<rparr>)\<rparr>"

definition cdr_config_delete_404 :: cdr_Config where
  "cdr_config_delete_404 =
     cdr_config1\<lparr>client_cdr := cdr_client1\<lparr>OperationsSTU3_Delete :=
                     (\<lambda>cs p. (False, Some (response 404), Some not_found))\<rparr>\<rparr>"




section \<open>Properties of the classifier\<close>

lemma Contains_iff_sublist: "Contains s substr = sublist substr s"
proof (induction s)
  case Nil
  show ?case by simp
next
  case (Cons c cs)
  show ?case using Cons.IH by (simp add: sublist_Cons_right)
qed

text \<open>
  C1, as the specification states it, fails: a result with status code 500 is at least 500
  and the classifier wraps it as a permanent error, which the retry executor does not retry.
\<close>

theorem C1_status_500_is_permanent:
  "(500::int) \<le> StatusCode \<lparr>StatusCode = 500, ErrorMessage = ''internal error'', Location = []\<rparr>
   \<and> isPermanent (checkForIntermittentErrors
         (Some \<lparr>StatusCode = 500, ErrorMessage = ''internal error'', Location = []\<rparr>)
         (Some (Err ''request failed'')))
   \<and> \<not> isTransient (checkForIntermittentErrors
         (Some \<lparr>StatusCode = 500, ErrorMessage = ''internal error'', Location = []\<rparr>)
         (Some (Err ''request failed'')))"
  by (simp add: checkForIntermittentErrors_def StatusInternalServerError_def Permanent_def
      isTransient_def)

text \<open>
  C1, amended: for every result whose status code is strictly greater than 500 the
  classifier returns the call's error unchanged, so an error of the client is transient
  (retry-eligible) and not permanent; a status code of exactly 500 is classified as
  permanent.
\<close>

theorem C1_above_500_returns_error_unchanged:
  "(500 < StatusCode r \<longrightarrow>
      checkForIntermittentErrors (Some r) err = err
      \<and> isTransient (checkForIntermittentErrors (Some r) (Some (Err m)))
      \<and> \<not> isPermanent (checkForIntermittentErrors (Some r) (Some (Err m))))
   \<and> (StatusCode r = 500 \<longrightarrow> isPermanent (checkForIntermittentErrors (Some r) err))"
  by (simp add: checkForIntermittentErrors_def StatusInternalServerError_def Permanent_def
      isTransient_def)

theorem C1_above_500_witness:
  "(500::int) < 503
   \<and> checkForIntermittentErrors
        (Some \<lparr>StatusCode = 503, ErrorMessage = ''unavailable'', Location = []\<rparr>)
        (Some (Err ''request failed'')) = Some (Err ''request failed'')
   \<and> isTransient (checkForIntermittentErrors
        (Some \<lparr>StatusCode = 503, ErrorMessage = ''unavailable'', Location = []\<rparr>)
        (Some (Err ''request failed'')))
   \<and> isPermanent (checkForIntermittentErrors
        (Some \<lparr>StatusCode = 500, ErrorMessage = ''unavailable'', Location = []\<rparr>) None)"
proof -
  let ?r = "\<lparr>StatusCode = 503, ErrorMessage = ''unavailable'', Location = []\<rparr>"
  let ?q = "\<lparr>StatusCode = 500, ErrorMessage = ''unavailable'', Location = []\<rparr>"
  have h: "500 < StatusCode ?r" by simp
  have k: "StatusCode ?q = 500" by simp
  from C1_above_500_returns_error_unchanged [of ?r "Some (Err ''request failed'')" "''request failed''"] h
  have a: "checkForIntermittentErrors (Some ?r) (Some (Err ''request failed'')) = Some (Err ''request failed'')
           \<and> isTransient (checkForIntermittentErrors (Some ?r) (Some (Err ''request failed'')))"
    by blast
  from C1_above_500_returns_error_unchanged [of ?q None] k
  have b: "isPermanent (checkForIntermittentErrors (Some ?q) None)"
    by blast
  have n: "(500::int) < 503" by simp
  from n a b show ?thesis by blast
qed

text \<open>
  C8, as the specification states it, fails: with no response and an error, the classifier
  returns the error as it is, which the retry executor retries; it is not permanent. The
  classifier takes no flag from its call site.
\<close>

theorem C8_nil_response_is_retried:
  "checkForIntermittentErrors None (Some (Err ''connection refused'')) = Some (Err ''connection refused'')
   \<and> \<not> isPermanent (checkForIntermittentErrors None (Some (Err ''connection refused'')))
   \<and> isTransient (checkForIntermittentErrors None (Some (Err ''connection refused'')))"
  by (simp add: checkForIntermittentErrors_def isTransient_def)

text \<open>
  C8, amended: for every attempt that received no response, the classifier returns the
  call's error unchanged; an error of the client is thereby transient (retry-eligible),
  not permanent.
\<close>

theorem C8_nil_response_returns_error_unchanged:
  "checkForIntermittentErrors None err = err
   \<and> isTransient (checkForIntermittentErrors None (Some (Err m)))
   \<and> \<not> isPermanent (checkForIntermittentErrors None (Some (Err m)))"
  by (simp add: checkForIntermittentErrors_def isTransient_def)

text \<open>
  C9: a result with status code 400 whose error message contains \<open>invalid character\<close> is
  classified as the intermittent error, which is retry-eligible and not permanent.
\<close>

theorem C9_bad_request_invalid_character_is_transient:
  assumes "StatusCode r = 400"
    and "Contains (ErrorMessage r) ''invalid character''"
  shows "checkForIntermittentErrors (Some r) err = Some ErrIntermittent
         \<and> isTransient (checkForIntermittentErrors (Some r) err)
         \<and> \<not> isPermanent (checkForIntermittentErrors (Some r) err)"
  using assms
  by (simp add: checkForIntermittentErrors_def StatusInternalServerError_def
      StatusBadRequest_def isTransient_def)

theorem C9_bad_request_witness:
  "StatusCode \<lparr>StatusCode = 400, ErrorMessage = ''an invalid character in body'', Location = []\<rparr> = 400
   \<and> Contains ''an invalid character in body'' ''invalid character''
   \<and> checkForIntermittentErrors
        (Some \<lparr>StatusCode = 400, ErrorMessage = ''an invalid character in body'', Location = []\<rparr>)
        (Some (Err ''bad request'')) = Some ErrIntermittent
   \<and> isTransient (checkForIntermittentErrors
        (Some \<lparr>StatusCode = 400, ErrorMessage = ''an invalid character in body'', Location = []\<rparr>)
        (Some (Err ''bad request'')))"
proof -
  let ?r = "\<lparr>StatusCode = 400, ErrorMessage = ''an invalid character in body'', Location = []\<rparr>"
  have h: "StatusCode ?r = 400" by simp
  have c: "Contains (ErrorMessage ?r) ''invalid character''" by simp
  from C9_bad_request_invalid_character_is_transient [OF h c, of "Some (Err ''bad request'')"]
  have a: "checkForIntermittentErrors (Some ?r) (Some (Err ''bad request'')) = Some ErrIntermittent
           \<and> isTransient (checkForIntermittentErrors (Some ?r) (Some (Err ''bad request'')))"
    by blast
  from c have c': "Contains ''an invalid character in body'' ''invalid character''" by simp
  from h c' a show ?thesis by blast
qed

section \<open>Properties of the metrics autoscaler\<close>

text \<open>
  C10: on every input (configuration, iteration order of the threshold mapping, resource
  data and calls issued so far) the autoscaler's Update returns what its Create returns:
  the same diagnostics, the same resource data with the same identifier, the same remote
  calls, or the same panic.
\<close>

theorem C10_update_is_create:
  "resourceMetricsAutoscalerUpdate c order s = resourceMetricsAutoscalerCreate c order s"
  by (simp add: resourceMetricsAutoscalerUpdate_def)

section \<open>Properties of the CDR and IAM organizations\<close>

subsection \<open>The calls of an update\<close>

lemma stu3Update_effect:
  assumes "stu3Update c s = Done (diags, s')"
  shows "data s' = data s
         \<and> (calls s' = calls s @ [CDR_GetOrganizationByID (ident (data s))]
            \<or> (\<exists>patch. calls s' = calls s @ [CDR_GetOrganizationByID (ident (data s)),
                                               CDR_Patch (''Organization/'' @ ident (data s)) patch]))"
  using assms
  unfolding stu3Update_def Let_def
  by (auto split: prod.splits option.splits outcome.splits if_splits)

lemma stu3Update_creationCalls:
  assumes "stu3Update c s = Done (diags, s')"
  shows "creationCalls (calls s') = creationCalls (calls s)"
  using stu3Update_effect [OF assms]
  by (auto simp: creationCalls_def)

text \<open>
  C2: when the organization value has been built and the initial read by \<open>org_id\<close> returns
  an organization and no error, Create sets the identifier to that organization's and
  returns what the resource's Update returns on the data so changed. Up to that point the
  read is the only call issued, so no onboarding call; and when the resource's Update is
  \<open>stu3Update\<close>, the whole Create issues no onboarding call and ends with that identifier.
\<close>

theorem C2_create_adopts_existing_organization:
  assumes "NewOrganization c (TimeZone c) (attr_str (data s) ''org_id'') (attr_str (data s) ''name'')
             = (Some org, None)"
    and "TenantSTU3_GetOrganizationByID (client_cdr c) (calls s) (attr_str (data s) ''org_id'')
             = (Some onb, resp, None)"
  shows "stu3Create c s =
           resourceCDROrgUpdate c
             \<lparr>data = SetId (data s) (Id_org onb),
              calls = calls s @ [CDR_GetOrganizationByID (attr_str (data s) ''org_id'')]\<rparr>
         \<and> creationCalls (calls s @ [CDR_GetOrganizationByID (attr_str (data s) ''org_id'')])
             = creationCalls (calls s)
         \<and> (resourceCDROrgUpdate c = stu3Update c \<longrightarrow>
              (\<forall>diags s'. stu3Create c s = Done (diags, s') \<longrightarrow>
                 creationCalls (calls s') = creationCalls (calls s)
                 \<and> ident (data s') = Id_org onb))"
proof -
  let ?s1 = "\<lparr>data = SetId (data s) (Id_org onb),
              calls = calls s @ [CDR_GetOrganizationByID (attr_str (data s) ''org_id'')]\<rparr>"
  have eq: "stu3Create c s = resourceCDROrgUpdate c ?s1"
    using assms unfolding stu3Create_def Let_def by simp
  have nocreate: "creationCalls (calls ?s1) = creationCalls (calls s)"
    by (simp add: creationCalls_def)
  have "creationCalls (calls s') = creationCalls (calls s) \<and> ident (data s') = Id_org onb"
    if u: "resourceCDROrgUpdate c = stu3Update c" and d: "stu3Create c s = Done (diags, s')"
    for diags s'
  proof -
    from eq u d have r: "stu3Update c ?s1 = Done (diags, s')" by simp
    from stu3Update_creationCalls [OF r] nocreate
    have a: "creationCalls (calls s') = creationCalls (calls s)" by simp
    from stu3Update_effect [OF r] have "data s' = data ?s1" by blast
    then have b: "ident (data s') = Id_org onb" by (simp add: SetId_def)
    from a b show ?thesis by blast
  qed
  with eq nocreate show ?thesis by simp
qed

theorem C2_create_adopts_witness:
  "NewOrganization cdr_config1 (TimeZone cdr_config1) (attr_str (data state_new) ''org_id'')
       (attr_str (data state_new) ''name'')
     = (Some \<lparr>Id_org = ''org-1'', Name_org = ''Hospital'', PartOf = None\<rparr>, None)
   \<and> TenantSTU3_GetOrganizationByID (client_cdr cdr_config1) (calls state_new)
       (attr_str (data state_new) ''org_id'') = (Some org1, Some (response 200), None)
   \<and> stu3Create cdr_config1 state_new
       = Done ([], \<lparr>data = data1, calls = [CDR_GetOrganizationByID ''org-1'']\<rparr>)
   \<and> stu3Create (cdr_config1\<lparr>resourceCDROrgUpdate := stu3Update cdr_config1\<rparr>) state_new
       = Done ([], \<lparr>data = data1, calls = [CDR_GetOrganizationByID ''org-1'', CDR_GetOrganizationByID ''org-1'']\<rparr>)"
proof -
  have h1: "NewOrganization cdr_config1 (TimeZone cdr_config1) (attr_str (data state_new) ''org_id'')
              (attr_str (data state_new) ''name'')
            = (Some \<lparr>Id_org = ''org-1'', Name_org = ''Hospital'', PartOf = None\<rparr>, None)"
    by (simp add: cdr_config1_def state_new_def data1_def)
  have h2: "TenantSTU3_GetOrganizationByID (client_cdr cdr_config1) (calls state_new)
              (attr_str (data state_new) ''org_id'') = (Some org1, Some (response 200), None)"
    by (simp add: cdr_config1_def cdr_client1_def)
  let ?c2 = "cdr_config1\<lparr>resourceCDROrgUpdate := stu3Update cdr_config1\<rparr>"
  have h1': "NewOrganization ?c2 (TimeZone ?c2) (attr_str (data state_new) ''org_id'')
              (attr_str (data state_new) ''name'')
            = (Some \<lparr>Id_org = ''org-1'', Name_org = ''Hospital'', PartOf = None\<rparr>, None)"
    using h1 by simp
  have h2': "TenantSTU3_GetOrganizationByID (client_cdr ?c2) (calls state_new)
              (attr_str (data state_new) ''org_id'') = (Some org1, Some (response 200), None)"
    using h2 by simp
  have a: "stu3Create cdr_config1 state_new
             = Done ([], \<lparr>data = data1, calls = [CDR_GetOrganizationByID ''org-1'']\<rparr>)"
    using C2_create_adopts_existing_organization [OF h1 h2]
    by (simp add: cdr_config1_def state_new_def data1_def org1_def SetId_def)
  have b: "stu3Create ?c2 state_new
             = Done ([], \<lparr>data = data1, calls = [CDR_GetOrganizationByID ''org-1'', CDR_GetOrganizationByID ''org-1'']\<rparr>)"
    using C2_create_adopts_existing_organization [OF h1' h2']
    by (simp add: stu3Update_def changeName_def changePartOf_def HasChange_def
        cdr_config1_def cdr_client1_def state_new_def data1_def org1_def SetId_def)
  from h1 h2 a b show ?thesis by blast
qed

text \<open>
  C3, as the specification states it, fails: with no field changed, Update still reads the
  organization from the remote side, one remote call, for the CDR organization and for the
  IAM organization alike.
\<close>

theorem C3_noop_update_issues_a_read:
  "\<not> HasChange (data state1) ''name''
   \<and> \<not> HasChange (data state1) ''part_of''
   \<and> \<not> HasChange (data state1) ''description''
   \<and> \<not> HasChange (data state1) ''type''
   \<and> \<not> HasChange (data state1) ''external_id''
   \<and> \<not> HasChange (data state1) ''display_name''
   \<and> calls state1 = []
   \<and> stu3Update cdr_config1 state1
       = Done ([], \<lparr>data = data1, calls = [CDR_GetOrganizationByID ''org-1'']\<rparr>)
   \<and> resourceIAMOrgUpdate iam_config1 state1
       = Done ([], \<lparr>data = data1, calls = [IAM_GetOrganizationByID ''org-1'']\<rparr>)"
  by (simp add: stu3Update_def resourceIAMOrgUpdate_def changeName_def changePartOf_def
      HasChange_def cdr_config1_def cdr_client1_def iam_config1_def iam_client1_def
      state1_def data1_def)

text \<open>
  C3, amended: when no field has changed, Update issues no patch or update call and leaves
  the resource data as it is. Its only remote call is the initial read of the organization
  by identifier (no call at all when the IAM client cannot be obtained).
\<close>

theorem C3_noop_update_only_reads:
  assumes "\<forall>k. \<not> HasChange (data s) k"
  shows "(\<exists>diags. stu3Update c s
            = Done (diags, s\<lparr>calls := calls s @ [CDR_GetOrganizationByID (ident (data s))]\<rparr>))
         \<and> (\<forall>client. IAMClient ci = Inr client \<longrightarrow>
              (\<exists>diags. resourceIAMOrgUpdate ci s
                 = Done (diags, s\<lparr>calls := calls s @ [IAM_GetOrganizationByID (ident (data s))]\<rparr>)))
         \<and> (\<forall>e. IAMClient ci = Inl e \<longrightarrow> resourceIAMOrgUpdate ci s = Done (FromErr e, s))"
proof -
  have cdr: "\<exists>diags. stu3Update c s
               = Done (diags, s\<lparr>calls := calls s @ [CDR_GetOrganizationByID (ident (data s))]\<rparr>)"
    using assms unfolding stu3Update_def Let_def changeName_def changePartOf_def
    by (simp split: prod.splits option.splits)
  have iam: "\<exists>diags. resourceIAMOrgUpdate ci s
               = Done (diags, s\<lparr>calls := calls s @ [IAM_GetOrganizationByID (ident (data s))]\<rparr>)"
    if "IAMClient ci = Inr client" for client
    using assms that unfolding resourceIAMOrgUpdate_def Let_def
    by (simp split: prod.splits option.splits)
  have noclient: "resourceIAMOrgUpdate ci s = Done (FromErr e, s)"
    if "IAMClient ci = Inl e" for e
    using that unfolding resourceIAMOrgUpdate_def by simp
  from cdr iam noclient show ?thesis by blast
qed

theorem C3_noop_update_witness:
  "(\<forall>k. \<not> HasChange (data state1) k)
   \<and> (\<exists>diags. stu3Update cdr_config1 state1
         = Done (diags, \<lparr>data = data1, calls = [CDR_GetOrganizationByID ''org-1'']\<rparr>))
   \<and> (\<exists>diags. resourceIAMOrgUpdate iam_config1 state1
         = Done (diags, \<lparr>data = data1, calls = [IAM_GetOrganizationByID ''org-1'']\<rparr>))"
proof -
  have h: "\<forall>k. \<not> HasChange (data state1) k"
    by (simp add: HasChange_def state1_def data1_def)
  have i: "IAMClient iam_config1 = Inr iam_client1"
    by (simp add: iam_config1_def)
  have s: "state1\<lparr>calls := calls state1 @ [CDR_GetOrganizationByID (ident (data state1))]\<rparr>
             = \<lparr>data = data1, calls = [CDR_GetOrganizationByID ''org-1'']\<rparr>"
    by (simp add: state1_def data1_def)
  have t: "state1\<lparr>calls := calls state1 @ [IAM_GetOrganizationByID (ident (data state1))]\<rparr>
             = \<lparr>data = data1, calls = [IAM_GetOrganizationByID ''org-1'']\<rparr>"
    by (simp add: state1_def data1_def)
  from C3_noop_update_only_reads [OF h, of cdr_config1 iam_config1] i s t
  have "(\<exists>diags. stu3Update cdr_config1 state1
           = Done (diags, \<lparr>data = data1, calls = [CDR_GetOrganizationByID ''org-1'']\<rparr>))
        \<and> (\<exists>diags. resourceIAMOrgUpdate iam_config1 state1
           = Done (diags, \<lparr>data = data1, calls = [IAM_GetOrganizationByID ''org-1'']\<rparr>))"
    by simp
  with h show ?thesis by blast
qed

subsection \<open>Read and the absent resource\<close>




subsection \<open>Soft delete of a resource that is already gone\<close>

text \<open>
  C6, as the specification states it, fails for the IAM organization: its Delete has no
  branch for status 404. When the delete call answers 404 with an error, Delete reports
  the error and keeps the identifier; so it does when the read before it answers 404.
\<close>

theorem C6_iam_delete_404_is_an_error:
  "resourceIAMOrgDelete iam_config_delete_404 state1
     = Done ([ErrorDiag not_found],
             \<lparr>data = data1, calls = [IAM_GetOrganizationByID ''org-1'', IAM_DeleteOrganization iamorg1]\<rparr>)
   \<and> ident data1 = ''org-1''
   \<and> resourceIAMOrgDelete iam_config_404 state1
     = Done ([ErrorDiag not_found],
             \<lparr>data = data1, calls = [IAM_GetOrganizationByID ''org-1'']\<rparr>)"
  by (simp add: resourceIAMOrgDelete_def iam_config_delete_404_def iam_config_404_def
      iam_client_404_def iam_client1_def state1_def data1_def FromErr_def)

text \<open>
  C6, amended: for every soft (non-purge) Delete of a CDR organization whose delete call
  returns a response with status 404, the operation returns no diagnostics and clears the
  identifier, whatever else the call returned.
\<close>

theorem C6_soft_delete_not_found_succeeds:
  assumes "\<not> attr_bool (data s) ''purge_delete''"
    and "OperationsSTU3_Delete (client_cdr c) (calls s) (path_Join c ''Organization'' (ident (data s)))
           = (deleted, Some r, err)"
    and "StatusCode r = 404"
  shows "stu3Delete c s
           = Done ([], \<lparr>data = SetId (data s) [],
                         calls = calls s @ [CDR_Delete (path_Join c ''Organization'' (ident (data s)))]\<rparr>)"
  using assms unfolding stu3Delete_def Let_def
  by (simp add: is404_def StatusNotFound_def)

theorem C6_soft_delete_not_found_witness:
  "\<not> attr_bool (data state1) ''purge_delete''
   \<and> stu3Delete cdr_config_delete_404 state1
     = Done ([], \<lparr>data = data1\<lparr>ident := []\<rparr>, calls = [CDR_Delete ''Organization/org-1'']\<rparr>)"
proof -
  have p: "\<not> attr_bool (data state1) ''purge_delete''"
    by (simp add: state1_def data1_def)
  have d: "OperationsSTU3_Delete (client_cdr cdr_config_delete_404) (calls state1)
             (path_Join cdr_config_delete_404 ''Organization'' (ident (data state1)))
           = (False, Some (response 404), Some not_found)"
    by (simp add: cdr_config_delete_404_def)
  have n: "StatusCode (response 404) = 404"
    by (simp add: response_def)
  from C6_soft_delete_not_found_succeeds [OF p d n]
  have "stu3Delete cdr_config_delete_404 state1
          = Done ([], \<lparr>data = data1\<lparr>ident := []\<rparr>, calls = [CDR_Delete ''Organization/org-1'']\<rparr>)"
    by (simp add: cdr_config_delete_404_def cdr_config1_def state1_def data1_def SetId_def)
  with p show ?thesis by blast
qed

subsection \<open>Purge delete and its poll\<close>











end
